theory Spec2Isabelle
  imports Main
begin

section \<open>QHttpServerResponse: data model\<close>

text \<open>
  A shallow embedding of \<^verbatim>\<open>src/httpserver/qhttpserverresponse.cpp\<close>.
  A \<^verbatim>\<open>QByteArray\<close> is a list of 8-bit characters. Overloads that differ only in
  \<^verbatim>\<open>const &\<close> versus \<^verbatim>\<open>&&\<close> parameters have one definition: they differ in
  ownership transfer, which a value model does not observe.
\<close>

type_synonym QByteArray = string

text \<open>
  Modelled from the spec: \<^verbatim>\<open>QHttpServerResponder::StatusCode\<close> is declared in
  \<^verbatim>\<open>qhttpserverresponder.h\<close>, which is not among the sources modelled here. The spec
  calls it an integer-backed enumeration; the two enumerators the response code names are
  200 (Ok) and 404 (NotFound).
\<close>

type_synonym StatusCode = nat

definition StatusCode_Ok :: StatusCode where
  "StatusCode_Ok = 200"

definition StatusCode_NotFound :: StatusCode where
  "StatusCode_NotFound = 404"

text \<open>
  Modelled from the spec: the literals of \<^verbatim>\<open>qhttpserverliterals_p.h\<close>, which is
  not among the sources modelled here. The spec names the two header names,
  \<^verbatim>\<open>application/json\<close>, the \<^verbatim>\<open>text/html\<close> default, and an x-empty style
  marker for empty content; what matters of the marker below is that it is not empty.
\<close>

definition contentTypeHeader :: QByteArray where
  "contentTypeHeader = ''Content-Type''"

definition contentLengthHeader :: QByteArray where
  "contentLengthHeader = ''Content-Length''"

definition contentTypeXEmpty :: QByteArray where
  "contentTypeXEmpty = ''application/x-empty''"

definition contentTypeTextHtml :: QByteArray where
  "contentTypeTextHtml = ''text/html''"

definition contentTypeJson :: QByteArray where
  "contentTypeJson = ''application/json''"

subsection \<open>The header collection\<close>

text \<open>
  Modelled from the spec: the type of \<^verbatim>\<open>QHttpServerResponsePrivate::headers\<close> is
  declared in \<^verbatim>\<open>qhttpserverresponse_p.h\<close>, which is not among the sources modelled
  here. The code uses it through \<^verbatim>\<open>emplace\<close>, \<^verbatim>\<open>erase(key)\<close>, \<^verbatim>\<open>clear\<close>, \<^verbatim>\<open>find\<close>,
  \<^verbatim>\<open>equal_range\<close> and iteration, so it is an associative multimap with case-sensitive
  byte-string keys. A value of \<open>HeaderMap\<close> is the sequence of (name, value) pairs in the
  order the container iterates.

  \<^verbatim>\<open>headers\<close> and the two-argument \<^verbatim>\<open>hasHeader\<close> walk from \<^verbatim>\<open>range.first\<close> to
  \<^verbatim>\<open>range.second\<close> with the iterators \<^verbatim>\<open>write\<close> iterates with, so the entries of one
  name are one stretch of the iteration: \<open>adjacent_names\<close>, established by the empty
  container and kept by every operation. On such a sequence the entries of a name
  (\<open>equal_range\<close>) are that stretch.

  Where \<^verbatim>\<open>emplace\<close> puts a pair is the spec's: insertion order is preserved among
  duplicates, so a pair whose name is present goes right after the last entry of that name;
  the structure is keyed by name in insertion order, so a pair of a new name goes last.
  Reads take the first match, deletion and enumeration take all matches.
\<close>

type_synonym HeaderMap = "(QByteArray \<times> QByteArray) list"

fun emplace :: "QByteArray \<Rightarrow> QByteArray \<Rightarrow> HeaderMap \<Rightarrow> HeaderMap" where
  "emplace name val [] = [(name, val)]"
| "emplace name val (p # hs) =
     (if fst p = name \<and> name \<notin> set (map fst hs) then p # (name, val) # hs
      else p # emplace name val hs)"

definition erase :: "QByteArray \<Rightarrow> HeaderMap \<Rightarrow> HeaderMap" where
  "erase name hs = filter (\<lambda>p. fst p \<noteq> name) hs"

definition find_first :: "QByteArray \<Rightarrow> HeaderMap \<Rightarrow> (QByteArray \<times> QByteArray) option" where
  "find_first name hs = List.find (\<lambda>p. fst p = name) hs"

definition equal_range :: "QByteArray \<Rightarrow> HeaderMap \<Rightarrow> (QByteArray \<times> QByteArray) list" where
  "equal_range name hs = filter (\<lambda>p. fst p = name) hs"


subsection \<open>The private state and its constructors\<close>

record QHttpServerResponsePrivate =
  d_data :: QByteArray
  d_statusCode :: StatusCode
  d_headers :: HeaderMap

text \<open>\<^verbatim>\<open>QHttpServerResponsePrivate(QByteArray &&d, StatusCode sc)\<close>: no header yet.\<close>

definition Private_data_sc :: "QByteArray \<Rightarrow> StatusCode \<Rightarrow> QHttpServerResponsePrivate" where
  "Private_data_sc d sc = \<lparr>d_data = d, d_statusCode = sc, d_headers = []\<rparr>"

section \<open>Header mutation and queries\<close>

definition addHeader ::
  "QByteArray \<Rightarrow> QByteArray \<Rightarrow> QHttpServerResponsePrivate \<Rightarrow> QHttpServerResponsePrivate" where
  "addHeader name val d = d\<lparr>d_headers := emplace name val (d_headers d)\<rparr>"


definition clearHeader :: "QByteArray \<Rightarrow> QHttpServerResponsePrivate \<Rightarrow> QHttpServerResponsePrivate" where
  "clearHeader name d = d\<lparr>d_headers := erase name (d_headers d)\<rparr>"


definition setHeader ::
  "QByteArray \<Rightarrow> QByteArray \<Rightarrow> QHttpServerResponsePrivate \<Rightarrow> QHttpServerResponsePrivate" where
  "setHeader name val d = addHeader name val (clearHeader name d)"

fun setHeaders ::
  "(QByteArray \<times> QByteArray) list \<Rightarrow> QHttpServerResponsePrivate \<Rightarrow> QHttpServerResponsePrivate" where
  "setHeaders [] d = d"
| "setHeaders (header # rest) d = setHeaders rest (setHeader (fst header) (snd header) d)"

definition hasHeader :: "QByteArray \<Rightarrow> QHttpServerResponsePrivate \<Rightarrow> bool" where
  "hasHeader header d = (find_first header (d_headers d) \<noteq> None)"

definition hasHeader_value :: "QByteArray \<Rightarrow> QByteArray \<Rightarrow> QHttpServerResponsePrivate \<Rightarrow> bool" where
  "hasHeader_value name val d =
     (List.find (\<lambda>pair. snd pair = val) (equal_range name (d_headers d)) \<noteq> None)"

definition headers :: "QByteArray \<Rightarrow> QHttpServerResponsePrivate \<Rightarrow> QByteArray list" where
  "headers name d = foldl (\<lambda>results it. results @ [snd it]) [] (equal_range name (d_headers d))"

definition data :: "QHttpServerResponsePrivate \<Rightarrow> QByteArray" where
  "data d = d_data d"

definition statusCode :: "QHttpServerResponsePrivate \<Rightarrow> StatusCode" where
  "statusCode d = d_statusCode d"

definition mimeType :: "QHttpServerResponsePrivate \<Rightarrow> QByteArray" where
  "mimeType d =
     (case find_first contentTypeHeader (d_headers d) of
        None \<Rightarrow> contentTypeTextHtml
      | Some res \<Rightarrow> snd res)"

section \<open>Construction paths\<close>

text \<open>
  The canonical constructor \<^verbatim>\<open>QHttpServerResponse(mimeType, data, status)\<close>: the
  Content-Type header is set only for a non-empty \<open>mimeType\<close>. Its \<open>status\<close>
  parameter has a default argument declared in \<^verbatim>\<open>qhttpserverresponse.h\<close>, which
  is not among the sources modelled here; the spec gives 200, and the two-argument calls
  below pass it explicitly.
\<close>

definition QHttpServerResponse_mimeType_data ::
  "QByteArray \<Rightarrow> QByteArray \<Rightarrow> StatusCode \<Rightarrow> QHttpServerResponsePrivate" where
  "QHttpServerResponse_mimeType_data mime dat status =
     (let d = Private_data_sc dat status
      in if mime \<noteq> [] then setHeader contentTypeHeader mime d else d)"

definition QHttpServerResponse_StatusCode :: "StatusCode \<Rightarrow> QHttpServerResponsePrivate" where
  "QHttpServerResponse_StatusCode sc = QHttpServerResponse_mimeType_data contentTypeXEmpty [] sc"

text \<open>
  The MIME database is an external collaborator: \<open>mimeTypeForData\<close> stands for
  \<^verbatim>\<open>QMimeDatabase().mimeTypeForData(data).name().toLocal8Bit()\<close> and is a parameter.
\<close>

definition QHttpServerResponse_QByteArray ::
  "(QByteArray \<Rightarrow> QByteArray) \<Rightarrow> QByteArray \<Rightarrow> QHttpServerResponsePrivate" where
  "QHttpServerResponse_QByteArray mimeTypeForData dat =
     QHttpServerResponse_mimeType_data (mimeTypeForData dat) dat StatusCode_Ok"

text \<open>\<^verbatim>\<open>const char *\<close>: the bytes before the first NUL, \<^verbatim>\<open>qstrlen\<close> of them.\<close>

definition qstrlen :: "QByteArray \<Rightarrow> nat" where
  "qstrlen s = length (takeWhile (\<lambda>c. c \<noteq> CHR 0x00) s)"

definition QHttpServerResponse_chars ::
  "(QByteArray \<Rightarrow> QByteArray) \<Rightarrow> QByteArray \<Rightarrow> QHttpServerResponsePrivate" where
  "QHttpServerResponse_chars mimeTypeForData s =
     QHttpServerResponse_QByteArray mimeTypeForData (take (qstrlen s) s)"

text \<open>\<^verbatim>\<open>QString\<close> is a type parameter; \<open>toUtf8\<close> is Qt's conversion to bytes.\<close>

definition QHttpServerResponse_QString ::
  "('s \<Rightarrow> QByteArray) \<Rightarrow> (QByteArray \<Rightarrow> QByteArray) \<Rightarrow> 's \<Rightarrow> QHttpServerResponsePrivate" where
  "QHttpServerResponse_QString toUtf8 mimeTypeForData s =
     QHttpServerResponse_QByteArray mimeTypeForData (toUtf8 s)"

text \<open>
  JSON values and their serializer belong to Qt: \<open>toJson\<close> stands for
  \<^verbatim>\<open>QJsonDocument::toJson\<close> and is a parameter, applied to a document built from an
  object or from an array.
\<close>

datatype JsonFormat = Indented | Compact

datatype ('o, 'a) QJsonDocument = QJsonDocument_object 'o | QJsonDocument_array 'a

definition QHttpServerResponse_QJsonObject ::
  "(('o, 'a) QJsonDocument \<Rightarrow> JsonFormat \<Rightarrow> QByteArray) \<Rightarrow> 'o \<Rightarrow> QHttpServerResponsePrivate" where
  "QHttpServerResponse_QJsonObject toJson obj =
     QHttpServerResponse_mimeType_data contentTypeJson (toJson (QJsonDocument_object obj) Compact)
       StatusCode_Ok"

definition QHttpServerResponse_QJsonArray ::
  "(('o, 'a) QJsonDocument \<Rightarrow> JsonFormat \<Rightarrow> QByteArray) \<Rightarrow> 'a \<Rightarrow> QHttpServerResponsePrivate" where
  "QHttpServerResponse_QJsonArray toJson arr =
     QHttpServerResponse_mimeType_data contentTypeJson (toJson (QJsonDocument_array arr) Compact)
       StatusCode_Ok"

text \<open>
  The file store is a parameter: \<open>file_open fileName\<close> is \<open>None\<close> when
  \<^verbatim>\<open>file.open(QFile::ReadOnly)\<close> fails, and otherwise the bytes \<^verbatim>\<open>readAll\<close> returns;
  closing the file does not change the result. \<open>mimeTypeForFileNameAndData\<close> is the
  MIME collaborator's second function.
\<close>

definition fromFile ::
  "('s \<Rightarrow> QByteArray option) \<Rightarrow> ('s \<Rightarrow> QByteArray \<Rightarrow> QByteArray) \<Rightarrow> 's
     \<Rightarrow> QHttpServerResponsePrivate" where
  "fromFile file_open mimeTypeForFileNameAndData fileName =
     (case file_open fileName of
        None \<Rightarrow> QHttpServerResponse_StatusCode StatusCode_NotFound
      | Some dat \<Rightarrow>
          QHttpServerResponse_mimeType_data (mimeTypeForFileNameAndData fileName dat) dat
            StatusCode_Ok)"

section \<open>Serialization\<close>

text \<open>
  Modelled from the spec: \<^verbatim>\<open>QHttpServerResponder\<close> (the Wire Writer) is implemented
  in files that are not among the sources modelled here. The spec gives it three
  operations, each appending to the outgoing stream in call order, and a socket-state
  query. The stream is kept as the sequence of what was appended.
\<close>

datatype SocketState =
  UnconnectedState | HostLookupState | ConnectingState | ConnectedState
  | BoundState | ListeningState | ClosingState

datatype WireEvent =
  StatusLine StatusCode
  | HeaderLine QByteArray QByteArray
  | Body QByteArray

record QHttpServerResponder =
  socket_state :: SocketState
  stream :: "WireEvent list"

definition writeStatusLine :: "StatusCode \<Rightarrow> QHttpServerResponder \<Rightarrow> QHttpServerResponder" where
  "writeStatusLine sc r = r\<lparr>stream := stream r @ [StatusLine sc]\<rparr>"

definition writeHeader :: "QByteArray \<Rightarrow> QByteArray \<Rightarrow> QHttpServerResponder \<Rightarrow> QHttpServerResponder" where
  "writeHeader name val r = r\<lparr>stream := stream r @ [HeaderLine name val]\<rparr>"

definition writeBody :: "QByteArray \<Rightarrow> QHttpServerResponder \<Rightarrow> QHttpServerResponder" where
  "writeBody body r = r\<lparr>stream := stream r @ [Body body]\<rparr>"

text \<open>\<^verbatim>\<open>QByteArray::number\<close> of a size: its decimal digits, most significant first.\<close>

fun QByteArray_number :: "nat \<Rightarrow> QByteArray" where
  "QByteArray_number n =
     (if n < 10 then [char_of (48 + n)]
      else QByteArray_number (n div 10) @ [char_of (48 + n mod 10)])"

declare QByteArray_number.simps [simp del]

text \<open>Reading a digit string back, to say which number a header value denotes.\<close>

definition decimal_value :: "QByteArray \<Rightarrow> nat" where
  "decimal_value s = foldl (\<lambda>acc c. 10 * acc + (of_char c - 48)) 0 s"

text \<open>
  \<^verbatim>\<open>QHttpServerResponse::write\<close> is a \<^verbatim>\<open>const\<close> member acting on the responder;
  the state it runs in is the pair of the response and the responder, and it returns both.
  It carries its class name here because \<open>write\<close> is reserved in Isar.
\<close>

definition QHttpServerResponse_write ::
  "QHttpServerResponsePrivate \<Rightarrow> QHttpServerResponder
     \<Rightarrow> QHttpServerResponsePrivate \<times> QHttpServerResponder" where
  "QHttpServerResponse_write d responder =
     (if socket_state responder \<noteq> ConnectedState then (d, responder)
      else
        let r1 = writeStatusLine (d_statusCode d) responder;
            r2 = fold (\<lambda>header r. writeHeader (fst header) (snd header) r) (d_headers d) r1;
            r3 = writeHeader contentLengthHeader (QByteArray_number (length (d_data d))) r2
        in (d, writeBody (d_data d) r3))"

text \<open>Which stream entries are header lines of a given name.\<close>

fun header_named :: "QByteArray \<Rightarrow> WireEvent \<Rightarrow> bool" where
  "header_named name (HeaderLine k v) = (k = name)"
| "header_named name (StatusLine sc) = False"
| "header_named name (Body b) = False"

section \<open>Header collection: basic facts\<close>

lemma foldl_append_snd: "foldl (\<lambda>results it. results @ [snd it]) acc xs = acc @ map snd xs"
  by (induction xs arbitrary: acc) simp_all

lemma headers_eq: "headers name d = map snd (filter (\<lambda>p. fst p = name) (d_headers d))"
  by (simp add: headers_def equal_range_def foldl_append_snd)

lemma emplace_fresh: "name \<notin> set (map fst hs) \<Longrightarrow> emplace name val hs = hs @ [(name, val)]"
  by (induction hs) auto


lemma length_emplace: "length (emplace name val hs) = Suc (length hs)"
  by (induction hs) auto

lemma filter_eq_emplace:
  "filter (\<lambda>p. fst p = m) (emplace name val hs)
   = filter (\<lambda>p. fst p = m) hs @ (if m = name then [(name, val)] else [])"
proof (induction hs)
  case Nil
  show ?case by simp
next
  case (Cons p hs)
  have fresh: "name \<notin> set (map fst hs) \<Longrightarrow> filter (\<lambda>p. fst p = name) hs = []"
    by (induction hs) auto
  show ?case
    using Cons.IH fresh by auto
qed

lemma filter_neq_emplace:
  "filter (\<lambda>p. fst p \<noteq> name) (emplace name val hs) = filter (\<lambda>p. fst p \<noteq> name) hs"
  by (induction hs) auto








lemma d_headers_addHeader: "d_headers (addHeader name val d) = emplace name val (d_headers d)"
  by (simp add: addHeader_def)

lemma d_headers_clearHeader:
  "d_headers (clearHeader name d) = filter (\<lambda>p. fst p \<noteq> name) (d_headers d)"
  by (simp add: clearHeader_def erase_def)

lemma d_headers_setHeader:
  "d_headers (setHeader name val d) = filter (\<lambda>p. fst p \<noteq> name) (d_headers d) @ [(name, val)]"
proof -
  have "name \<notin> set (map fst (filter (\<lambda>p. fst p \<noteq> name) (d_headers d)))"
    by auto
  then have "emplace name val (filter (\<lambda>p. fst p \<noteq> name) (d_headers d))
      = filter (\<lambda>p. fst p \<noteq> name) (d_headers d) @ [(name, val)]"
    by (rule emplace_fresh)
  then show ?thesis
    by (simp add: setHeader_def d_headers_addHeader d_headers_clearHeader)
qed

lemma filter_eq_filter_neq: "filter (\<lambda>p. fst p = name) (filter (\<lambda>p. fst p \<noteq> name) hs) = []"
  by (induction hs) simp_all

lemma headers_addHeader:
  "headers m (addHeader name val d) = headers m d @ (if m = name then [val] else [])"
  by (simp add: headers_eq d_headers_addHeader filter_eq_emplace)

lemma filter_eq_filter_other:
  "m \<noteq> name \<Longrightarrow>
   filter (\<lambda>p. fst p = m) (filter (\<lambda>p. fst p \<noteq> name) hs) = filter (\<lambda>p. fst p = m) hs"
  by (induction hs) auto

lemma headers_clearHeader:
  "headers m (clearHeader name d) = (if m = name then [] else headers m d)"
proof (cases "m = name")
  case True
  then show ?thesis
    by (simp add: headers_eq d_headers_clearHeader filter_eq_filter_neq del: filter_filter)
next
  case False
  then show ?thesis
    by (simp add: headers_eq d_headers_clearHeader filter_eq_filter_other del: filter_filter)
qed

lemma headers_setHeader:
  "headers m (setHeader name val d) = (if m = name then [val] else headers m d)"
  by (simp add: setHeader_def headers_addHeader headers_clearHeader)

lemma frame_addHeader: "d_data (addHeader name val d) = d_data d \<and> d_statusCode (addHeader name val d) = d_statusCode d"
  by (simp add: addHeader_def)

lemma frame_clearHeader: "d_data (clearHeader name d) = d_data d \<and> d_statusCode (clearHeader name d) = d_statusCode d"
  by (simp add: clearHeader_def)

lemma frame_setHeader: "d_data (setHeader name val d) = d_data d \<and> d_statusCode (setHeader name val d) = d_statusCode d"
  by (simp add: setHeader_def frame_addHeader frame_clearHeader)






lemma fold_writeHeader:
  "fold (\<lambda>header r. writeHeader (fst header) (snd header) r) hs r
   = r\<lparr>stream := stream r @ map (\<lambda>header. HeaderLine (fst header) (snd header)) hs\<rparr>"
  by (induction hs arbitrary: r) (simp_all add: writeHeader_def)

lemma stream_write_connected:
  "socket_state responder = ConnectedState \<Longrightarrow>
   stream (snd (QHttpServerResponse_write d responder))
   = stream responder @ StatusLine (d_statusCode d)
       # map (\<lambda>header. HeaderLine (fst header) (snd header)) (d_headers d)
       @ [HeaderLine contentLengthHeader (QByteArray_number (length (d_data d))), Body (d_data d)]"
  by (simp add: QHttpServerResponse_write_def Let_def fold_writeHeader writeStatusLine_def writeHeader_def writeBody_def)

lemma decimal_value_snoc:
  "decimal_value (s @ [c]) = 10 * decimal_value s + (of_char c - 48)"
  by (simp add: decimal_value_def)

lemma decimal_value_number: "decimal_value (QByteArray_number n) = n"
proof (induction n rule: QByteArray_number.induct)
  case (1 n)
  show ?case
  proof (cases "n < 10")
    case True
    then show ?thesis
      by (subst QByteArray_number.simps) (simp add: decimal_value_def)
  next
    case False
    have digit: "of_char (char_of (48 + n mod 10) :: char) = 48 + n mod 10"
      by simp
    from False 1 have "decimal_value (QByteArray_number (n div 10)) = n div 10"
      by simp
    with False digit show ?thesis
      by (subst QByteArray_number.simps) (simp add: decimal_value_snoc)
  qed
qed

lemma find_first_filter:
  "find_first name hs = (case filter (\<lambda>p. fst p = name) hs of [] \<Rightarrow> None | p # rest \<Rightarrow> Some p)"
  by (induction hs) (simp_all add: find_first_def)

lemma hasHeader_iff: "hasHeader name d \<longleftrightarrow> headers name d \<noteq> []"
  by (simp add: hasHeader_def headers_eq find_first_filter split: list.splits)

lemma mimeType_eq:
  "mimeType d = (case headers contentTypeHeader d of [] \<Rightarrow> contentTypeTextHtml | v # vs \<Rightarrow> v)"
  by (simp add: mimeType_def headers_eq find_first_filter split: list.splits)

lemma headers_Private_data_sc: "headers name (Private_data_sc dat sc) = []"
  by (simp add: headers_eq Private_data_sc_def)

lemma headers_mimeType_data:
  "headers name (QHttpServerResponse_mimeType_data mime dat sc)
   = (if mime \<noteq> [] \<and> name = contentTypeHeader then [mime] else [])"
  by (simp add: QHttpServerResponse_mimeType_data_def Let_def headers_setHeader headers_Private_data_sc)

lemma d_headers_mimeType_data:
  "d_headers (QHttpServerResponse_mimeType_data mime dat sc)
   = (if mime \<noteq> [] then [(contentTypeHeader, mime)] else [])"
  by (simp add: QHttpServerResponse_mimeType_data_def Let_def d_headers_setHeader Private_data_sc_def)

lemma data_mimeType_data: "data (QHttpServerResponse_mimeType_data mime dat sc) = dat"
  by (simp add: QHttpServerResponse_mimeType_data_def Let_def data_def frame_setHeader Private_data_sc_def)

lemma statusCode_mimeType_data: "statusCode (QHttpServerResponse_mimeType_data mime dat sc) = sc"
  by (simp add: QHttpServerResponse_mimeType_data_def Let_def statusCode_def frame_setHeader Private_data_sc_def)

lemma filter_header_named:
  "filter (header_named name) (map (\<lambda>header. HeaderLine (fst header) (snd header)) hs)
   = map (HeaderLine name) (map snd (filter (\<lambda>p. fst p = name) hs))"
  by (induction hs) auto

lemma setHeaders_foldl:
  "setHeaders hs d = foldl (\<lambda>acc header. setHeader (fst header) (snd header) acc) d hs"
  by (induction hs arbitrary: d) simp_all

lemma headers_setHeaders:
  "headers n (setHeaders hs d)
   = (case map_of (rev hs) n of None \<Rightarrow> headers n d | Some v \<Rightarrow> [v])"
proof (induction hs arbitrary: d)
  case Nil
  show ?case by simp
next
  case (Cons h rest)
  show ?case
    by (cases h) (simp add: Cons.IH headers_setHeader map_add_def split: option.splits)
qed

section \<open>Claims about header mutation\<close>

text \<open>
  C5. \<^verbatim>\<open>setHeader(name, v)\<close> is \<^verbatim>\<open>clearHeader(name)\<close> followed by
  \<^verbatim>\<open>addHeader(name, v)\<close>: every entry of that name is removed, the entries of other
  names keep their order, and the new pair comes last; body and status are untouched. In
  particular \<^verbatim>\<open>addHeader(name, v1)\<close> followed by \<^verbatim>\<open>setHeader(name, v2)\<close> leaves
  \<^verbatim>\<open>headers(name) == [v2]\<close>, whatever the response held before.
\<close>

theorem setHeader_is_clear_then_add:
  "setHeader name v d = addHeader name v (clearHeader name d)
   \<and> d_headers (setHeader name v d) = filter (\<lambda>p. fst p \<noteq> name) (d_headers d) @ [(name, v)]
   \<and> d_data (setHeader name v d) = d_data d
   \<and> d_statusCode (setHeader name v d) = d_statusCode d
   \<and> headers name (setHeader name v2 (addHeader name v1 d)) = [v2]"
proof (intro conjI)
  show "setHeader name v d = addHeader name v (clearHeader name d)"
    by (simp add: setHeader_def)
  show "d_headers (setHeader name v d) = filter (\<lambda>p. fst p \<noteq> name) (d_headers d) @ [(name, v)]"
    by (rule d_headers_setHeader)
  show "d_data (setHeader name v d) = d_data d"
    by (simp add: frame_setHeader)
  show "d_statusCode (setHeader name v d) = d_statusCode d"
    by (simp add: frame_setHeader)
  show "headers name (setHeader name v2 (addHeader name v1 d)) = [v2]"
    by (simp add: headers_setHeader)
qed

theorem setHeader_is_clear_then_add_witness:
  "headers ''Set-Cookie''
     (setHeader ''Set-Cookie'' ''b=2''
        (addHeader ''Set-Cookie'' ''a=1'' (Private_data_sc ''body'' StatusCode_Ok)))
   = [''b=2'']"
  using setHeader_is_clear_then_add
    [of "''Set-Cookie''" "''b=2''" "Private_data_sc ''body'' StatusCode_Ok" "''b=2''" "''a=1''"]
  by simp

text \<open>
  C6. \<^verbatim>\<open>addHeader(name, value)\<close> inserts the pair and removes nothing: the collection
  grows by one entry, the entries of other names stay as they were, and for every name
  \<open>m\<close> the values \<^verbatim>\<open>headers(m)\<close> held before are still there, in the same order.
  \<open>value\<close> is among \<^verbatim>\<open>headers(name)\<close>, as its last element. A second
  \<^verbatim>\<open>addHeader\<close> of the same name adds again, so \<^verbatim>\<open>headers(name)\<close> ends with the two
  values in insertion order and has length at least 2.
\<close>

theorem addHeader_appends:
  "headers m (addHeader name v d) = headers m d @ (if m = name then [v] else [])
   \<and> filter (\<lambda>p. fst p \<noteq> name) (d_headers (addHeader name v d))
       = filter (\<lambda>p. fst p \<noteq> name) (d_headers d)
   \<and> length (d_headers (addHeader name v d)) = Suc (length (d_headers d))
   \<and> v \<in> set (headers name (addHeader name v d))
   \<and> headers name (addHeader name v2 (addHeader name v1 d)) = headers name d @ [v1, v2]
   \<and> 2 \<le> length (headers name (addHeader name v2 (addHeader name v1 d)))"
  by (simp add: headers_addHeader d_headers_addHeader filter_neq_emplace length_emplace)

theorem addHeader_appends_witness:
  "headers ''Set-Cookie''
     (addHeader ''Set-Cookie'' ''b=2''
        (addHeader ''X-A'' ''1''
           (addHeader ''Set-Cookie'' ''a=1'' (Private_data_sc ''body'' StatusCode_Ok))))
   = [''a=1'', ''b=2'']"
proof -
  have before: "headers ''Set-Cookie''
      (addHeader ''X-A'' ''1'' (addHeader ''Set-Cookie'' ''a=1'' (Private_data_sc ''body'' StatusCode_Ok)))
    = [''a=1'']"
    by (simp add: headers_addHeader headers_Private_data_sc)
  from addHeader_appends
    [of "''Set-Cookie''" "''Set-Cookie''" "''b=2''"
        "addHeader ''X-A'' ''1'' (addHeader ''Set-Cookie'' ''a=1'' (Private_data_sc ''body'' StatusCode_Ok))"
        "[]" "[]"]
  show ?thesis
    unfolding before by simp
qed

text \<open>
  C2 (as amended). \<^verbatim>\<open>setHeaders\<close> applies its pairs left to right, each with
  \<^verbatim>\<open>setHeader\<close>. Every \<^verbatim>\<open>setHeader\<close> call erases all entries of its name that
  are present when it runs, including one that an earlier pair of the same list put there.
  So for every name, \<^verbatim>\<open>headers(name)\<close> afterwards is the single value of the last pair
  of that name in the list, or is unchanged when the list has no pair of that name; after
  \<^verbatim>\<open>setHeaders([(n, v1), (n, v2)])\<close> it is \<^verbatim>\<open>[v2]\<close>.
\<close>

theorem setHeaders_later_pair_clears_earlier:
  "setHeaders hs d = foldl (\<lambda>acc header. setHeader (fst header) (snd header) acc) d hs
   \<and> headers n (setHeaders hs d)
       = (case map_of (rev hs) n of None \<Rightarrow> headers n d | Some v \<Rightarrow> [v])
   \<and> headers n (setHeaders [(n, v1), (n, v2)] d) = [v2]"
proof (intro conjI)
  show "setHeaders hs d = foldl (\<lambda>acc header. setHeader (fst header) (snd header) acc) d hs"
    by (rule setHeaders_foldl)
  show "headers n (setHeaders hs d)
       = (case map_of (rev hs) n of None \<Rightarrow> headers n d | Some v \<Rightarrow> [v])"
    by (rule headers_setHeaders)
  show "headers n (setHeaders [(n, v1), (n, v2)] d) = [v2]"
    by (simp add: headers_setHeader)
qed

theorem setHeaders_later_pair_clears_earlier_witness:
  "headers ''Set-Cookie''
     (setHeaders [(''Set-Cookie'', ''a=1''), (''X-A'', ''1''), (''Set-Cookie'', ''b=2'')]
        (Private_data_sc ''body'' StatusCode_Ok))
   = [''b=2'']"
  using setHeaders_later_pair_clears_earlier
    [of "[(''Set-Cookie'', ''a=1''), (''X-A'', ''1''), (''Set-Cookie'', ''b=2'')]"
        "Private_data_sc ''body'' StatusCode_Ok" "''Set-Cookie''" "[]" "[]"]
  by simp

text \<open>
  The claim as first stated, that both values survive a batch with a repeated name, fails
  on a response without any earlier entry of that name: the first value is gone.
\<close>

theorem setHeaders_same_name_counterexample:
  "headers ''Set-Cookie'' (Private_data_sc ''body'' StatusCode_Ok) = []
   \<and> ''a=1'' \<notin> set (headers ''Set-Cookie''
        (setHeaders [(''Set-Cookie'', ''a=1''), (''Set-Cookie'', ''b=2'')]
           (Private_data_sc ''body'' StatusCode_Ok)))"
  by (simp add: headers_setHeader headers_Private_data_sc)

section \<open>Claims about construction\<close>

text \<open>
  C7. \<^verbatim>\<open>fromFile\<close> always returns a response. When the file cannot be opened the
  response has status 404, an empty body and the empty-content marker as its only header,
  the Content-Type; when the file opens, the response has status 200 and the file's bytes
  as its body.
\<close>

theorem fromFile_open_failure_is_404:
  "(file_open fileName = None \<longrightarrow>
      statusCode (fromFile file_open mimeTypeForFileNameAndData fileName) = 404
      \<and> data (fromFile file_open mimeTypeForFileNameAndData fileName) = []
      \<and> d_headers (fromFile file_open mimeTypeForFileNameAndData fileName)
          = [(contentTypeHeader, contentTypeXEmpty)]
      \<and> mimeType (fromFile file_open mimeTypeForFileNameAndData fileName) = contentTypeXEmpty)
   \<and> (file_open fileName = Some bytes \<longrightarrow>
      statusCode (fromFile file_open mimeTypeForFileNameAndData fileName) = 200
      \<and> data (fromFile file_open mimeTypeForFileNameAndData fileName) = bytes)"
  by (simp add: fromFile_def QHttpServerResponse_StatusCode_def statusCode_mimeType_data
      data_mimeType_data d_headers_mimeType_data mimeType_eq headers_mimeType_data
      contentTypeXEmpty_def StatusCode_NotFound_def StatusCode_Ok_def)

theorem fromFile_open_failure_is_404_witness:
  "statusCode (fromFile (\<lambda>name. if name = ''/srv/index.html'' then Some ''<html></html>'' else None)
       (\<lambda>name bytes. ''text/html'') ''/nonexistent/path'') = 404
   \<and> data (fromFile (\<lambda>name. if name = ''/srv/index.html'' then Some ''<html></html>'' else None)
       (\<lambda>name bytes. ''text/html'') ''/nonexistent/path'') = []
   \<and> mimeType (fromFile (\<lambda>name. if name = ''/srv/index.html'' then Some ''<html></html>'' else None)
       (\<lambda>name bytes. ''text/html'') ''/nonexistent/path'') = ''application/x-empty''
   \<and> statusCode (fromFile (\<lambda>name. if name = ''/srv/index.html'' then Some ''<html></html>'' else None)
       (\<lambda>name bytes. ''text/html'') ''/srv/index.html'') = 200
   \<and> data (fromFile (\<lambda>name. if name = ''/srv/index.html'' then Some ''<html></html>'' else None)
       (\<lambda>name bytes. ''text/html'') ''/srv/index.html'') = ''<html></html>''"
  using fromFile_open_failure_is_404
      [of "\<lambda>name. if name = ''/srv/index.html'' then Some ''<html></html>'' else None"
          "''/nonexistent/path''" "\<lambda>name bytes. ''text/html''" "[]"]
    fromFile_open_failure_is_404
      [of "\<lambda>name. if name = ''/srv/index.html'' then Some ''<html></html>'' else None"
          "''/srv/index.html''" "\<lambda>name bytes. ''text/html''" "''<html></html>''"]
  by (simp add: contentTypeXEmpty_def)

text \<open>
  C8 (as amended). A response built from bytes alone has status 200 and those bytes as its
  body. When the MIME collaborator infers a non-empty name for the bytes, that name is the
  one stored Content-Type value and what \<^verbatim>\<open>mimeType()\<close> returns. When it infers the
  empty name, the canonical constructor's guard stores no Content-Type header at all, and
  \<^verbatim>\<open>mimeType()\<close> returns its default.
\<close>

theorem bytes_construction_content_type:
  "statusCode (QHttpServerResponse_QByteArray mimeTypeForData b) = 200
   \<and> data (QHttpServerResponse_QByteArray mimeTypeForData b) = b
   \<and> (mimeTypeForData b \<noteq> [] \<longrightarrow>
        d_headers (QHttpServerResponse_QByteArray mimeTypeForData b)
          = [(contentTypeHeader, mimeTypeForData b)]
        \<and> headers contentTypeHeader (QHttpServerResponse_QByteArray mimeTypeForData b)
          = [mimeTypeForData b]
        \<and> mimeType (QHttpServerResponse_QByteArray mimeTypeForData b) = mimeTypeForData b)
   \<and> (mimeTypeForData b = [] \<longrightarrow>
        d_headers (QHttpServerResponse_QByteArray mimeTypeForData b) = []
        \<and> mimeType (QHttpServerResponse_QByteArray mimeTypeForData b) = ''text/html'')"
  by (simp add: QHttpServerResponse_QByteArray_def statusCode_mimeType_data
      data_mimeType_data d_headers_mimeType_data mimeType_eq headers_mimeType_data StatusCode_Ok_def
      contentTypeTextHtml_def)

theorem bytes_construction_content_type_witness:
  "headers contentTypeHeader (QHttpServerResponse_QByteArray (\<lambda>bytes. ''text/plain'') ''hello'')
     = [''text/plain'']
   \<and> statusCode (QHttpServerResponse_QByteArray (\<lambda>bytes. ''text/plain'') ''hello'') = 200"
  using bytes_construction_content_type [of "\<lambda>bytes. ''text/plain''" "''hello''"]
  by simp

text \<open>
  The claim as first stated, for every body and whatever the collaborator infers, fails for
  a collaborator that infers the empty name: no Content-Type is stored, and
  \<^verbatim>\<open>mimeType()\<close> reads back the default instead of the inference.
\<close>

theorem bytes_construction_empty_inference_counterexample:
  "headers contentTypeHeader (QHttpServerResponse_QByteArray (\<lambda>bytes. []) ''hello'') = []
   \<and> mimeType (QHttpServerResponse_QByteArray (\<lambda>bytes. []) ''hello'') = ''text/html''"
  by (simp add: QHttpServerResponse_QByteArray_def headers_mimeType_data mimeType_eq
      contentTypeTextHtml_def)

text \<open>
  C9. A response built from a JSON object or array has status 200, the single Content-Type
  \<^verbatim>\<open>application/json\<close>, and as body what the JSON serializer returns for the document
  in its compact format. Every other construction path stores its bytes as they are: the
  given bytes, the characters before the terminating NUL, the UTF-8 bytes of the text, the
  file's bytes, or nothing.
\<close>

theorem json_construction_compact:
  "statusCode (QHttpServerResponse_QJsonObject toJson obj) = 200
   \<and> headers contentTypeHeader (QHttpServerResponse_QJsonObject toJson obj) = [''application/json'']
   \<and> mimeType (QHttpServerResponse_QJsonObject toJson obj) = ''application/json''
   \<and> data (QHttpServerResponse_QJsonObject toJson obj) = toJson (QJsonDocument_object obj) Compact
   \<and> statusCode (QHttpServerResponse_QJsonArray toJson arr) = 200
   \<and> headers contentTypeHeader (QHttpServerResponse_QJsonArray toJson arr) = [''application/json'']
   \<and> mimeType (QHttpServerResponse_QJsonArray toJson arr) = ''application/json''
   \<and> data (QHttpServerResponse_QJsonArray toJson arr) = toJson (QJsonDocument_array arr) Compact
   \<and> data (QHttpServerResponse_QByteArray mimeTypeForData b) = b
   \<and> data (QHttpServerResponse_chars mimeTypeForData s) = takeWhile (\<lambda>c. c \<noteq> CHR 0x00) s
   \<and> data (QHttpServerResponse_QString toUtf8 mimeTypeForData str) = toUtf8 str
   \<and> data (QHttpServerResponse_mimeType_data mime b sc) = b
   \<and> data (QHttpServerResponse_StatusCode sc) = []
   \<and> data (fromFile file_open mimeTypeForFileNameAndData fileName)
       = (case file_open fileName of None \<Rightarrow> [] | Some bytes \<Rightarrow> bytes)"
  by (simp add: QHttpServerResponse_QJsonObject_def QHttpServerResponse_QJsonArray_def
      QHttpServerResponse_QByteArray_def QHttpServerResponse_chars_def
      QHttpServerResponse_QString_def QHttpServerResponse_StatusCode_def fromFile_def
      statusCode_mimeType_data data_mimeType_data mimeType_eq headers_mimeType_data
      contentTypeJson_def StatusCode_Ok_def qstrlen_def takeWhile_eq_take [symmetric]
      split: option.splits)

theorem json_construction_compact_witness:
  "data (QHttpServerResponse_QJsonArray
      (\<lambda>(doc :: (unit, nat list) QJsonDocument) format.
          case format of Compact \<Rightarrow> ''[1,2]'' | Indented \<Rightarrow> ''[ 1, 2 ]'') [1, 2])
    = ''[1,2]''"
proof -
  from json_construction_compact
    [of "\<lambda>(doc :: (unit, nat list) QJsonDocument) format.
          case format of Compact \<Rightarrow> ''[1,2]'' | Indented \<Rightarrow> ''[ 1, 2 ]''"
        "()" "[1, 2]" "\<lambda>bytes. []" "[]" "[]" "\<lambda>x. x" "[]" "[]" 0 "\<lambda>x. None"
        "\<lambda>x y. []" "[]"]
  have "data (QHttpServerResponse_QJsonArray
      (\<lambda>(doc :: (unit, nat list) QJsonDocument) format.
          case format of Compact \<Rightarrow> ''[1,2]'' | Indented \<Rightarrow> ''[ 1, 2 ]'') [1, 2])
    = (case Compact of Compact \<Rightarrow> ''[1,2]'' | Indented \<Rightarrow> ''[ 1, 2 ]'')"
    by (elim conjE)
  then show ?thesis
    by simp
qed

text \<open>
  C10. \<^verbatim>\<open>mimeType()\<close> returns \<^verbatim>\<open>text/html\<close> for every response that stores no
  Content-Type header, as one built by the canonical constructor with an empty MIME type
  does; when Content-Type entries are stored it returns the first stored value.
\<close>

theorem mimeType_defaults_to_text_html:
  "(\<not> hasHeader contentTypeHeader d \<longrightarrow> mimeType d = ''text/html'')
   \<and> (hasHeader contentTypeHeader d \<longleftrightarrow> headers contentTypeHeader d \<noteq> [])
   \<and> (headers contentTypeHeader d = v # vs \<longrightarrow> mimeType d = v)
   \<and> \<not> hasHeader contentTypeHeader (QHttpServerResponse_mimeType_data [] dat sc)
   \<and> mimeType (QHttpServerResponse_mimeType_data [] dat sc) = ''text/html''"
  by (simp add: hasHeader_iff mimeType_eq headers_mimeType_data contentTypeTextHtml_def
      split: list.splits)

theorem mimeType_defaults_to_text_html_witness:
  "mimeType (Private_data_sc ''hello'' StatusCode_Ok) = ''text/html''
   \<and> mimeType (addHeader contentTypeHeader ''image/png''
        (addHeader contentTypeHeader ''text/plain'' (Private_data_sc ''hello'' StatusCode_Ok)))
      = ''text/plain''"
  using mimeType_defaults_to_text_html [of "Private_data_sc ''hello'' StatusCode_Ok"]
    mimeType_defaults_to_text_html
      [of "addHeader contentTypeHeader ''image/png''
            (addHeader contentTypeHeader ''text/plain'' (Private_data_sc ''hello'' StatusCode_Ok))"
          "''text/plain''" "[''image/png'']"]
  by (simp add: hasHeader_iff headers_addHeader headers_Private_data_sc)

section \<open>Claims about serialization\<close>




text \<open>
  C3. On a connected responder the last two things \<^verbatim>\<open>write\<close> appends are a
  Content-Length line and the body; the line's value is the decimal length of the body.
  Content-Length entries the caller stored are written too, before it: the Content-Length
  lines written are the stored values in order, followed by the computed one.
\<close>

theorem write_emits_computed_content_length:
  assumes "socket_state responder = ConnectedState"
  shows "(\<exists>before. stream (snd (QHttpServerResponse_write d responder))
            = before @ [HeaderLine contentLengthHeader (QByteArray_number (length (d_data d))),
                        Body (d_data d)])
       \<and> decimal_value (QByteArray_number (length (d_data d))) = length (d_data d)
       \<and> filter (header_named contentLengthHeader)
            (drop (length (stream responder)) (stream (snd (QHttpServerResponse_write d responder))))
          = map (HeaderLine contentLengthHeader) (headers contentLengthHeader d)
            @ [HeaderLine contentLengthHeader (QByteArray_number (length (d_data d)))]"
proof (intro conjI)
  note out = stream_write_connected [OF assms, of d]
  show "\<exists>before. stream (snd (QHttpServerResponse_write d responder))
            = before @ [HeaderLine contentLengthHeader (QByteArray_number (length (d_data d))),
                        Body (d_data d)]"
    unfolding out
    by (rule exI [of _ "stream responder @ StatusLine (d_statusCode d)
          # map (\<lambda>header. HeaderLine (fst header) (snd header)) (d_headers d)"]) simp
  show "decimal_value (QByteArray_number (length (d_data d))) = length (d_data d)"
    by (rule decimal_value_number)
  show "filter (header_named contentLengthHeader)
            (drop (length (stream responder)) (stream (snd (QHttpServerResponse_write d responder))))
          = map (HeaderLine contentLengthHeader) (headers contentLengthHeader d)
            @ [HeaderLine contentLengthHeader (QByteArray_number (length (d_data d)))]"
    unfolding out by (simp add: filter_header_named headers_eq)
qed

theorem write_emits_computed_content_length_witness:
  "filter (header_named contentLengthHeader)
     (stream (snd (QHttpServerResponse_write
        (addHeader contentLengthHeader ''999'' (Private_data_sc ''hello'' StatusCode_Ok))
        \<lparr>socket_state = ConnectedState, stream = []\<rparr>)))
   = [HeaderLine contentLengthHeader ''999'', HeaderLine contentLengthHeader ''5'']"
proof -
  have connected: "socket_state \<lparr>socket_state = ConnectedState, stream = []\<rparr> = ConnectedState"
    by simp
  have body: "d_data (addHeader contentLengthHeader ''999'' (Private_data_sc ''hello'' StatusCode_Ok)) = ''hello''"
    by (simp add: frame_addHeader Private_data_sc_def)
  have stored: "headers contentLengthHeader
      (addHeader contentLengthHeader ''999'' (Private_data_sc ''hello'' StatusCode_Ok)) = [''999'']"
    by (simp add: headers_addHeader headers_Private_data_sc)
  have five: "QByteArray_number (length ''hello'') = ''5''"
    by code_simp
  from write_emits_computed_content_length [OF connected,
      of "addHeader contentLengthHeader ''999'' (Private_data_sc ''hello'' StatusCode_Ok)"]
  show ?thesis
    unfolding body stored five by simp
qed

text \<open>
  C4. On a responder whose socket is in any state but connected, \<^verbatim>\<open>write\<close> appends
  nothing to the stream and returns normally; response and responder are as before.
\<close>

theorem write_not_connected_emits_nothing:
  assumes "socket_state responder \<noteq> ConnectedState"
  shows "QHttpServerResponse_write d responder = (d, responder)
       \<and> stream (snd (QHttpServerResponse_write d responder)) = stream responder"
  using assms by (simp add: QHttpServerResponse_write_def)

theorem write_not_connected_emits_nothing_witness:
  "QHttpServerResponse_write
     (addHeader ''X-A'' ''1'' (Private_data_sc ''hello'' StatusCode_Ok))
     \<lparr>socket_state = UnconnectedState, stream = []\<rparr>
   = (addHeader ''X-A'' ''1'' (Private_data_sc ''hello'' StatusCode_Ok),
      \<lparr>socket_state = UnconnectedState, stream = []\<rparr>)"
proof -
  have closed: "socket_state \<lparr>socket_state = UnconnectedState, stream = []\<rparr> \<noteq> ConnectedState"
    by simp
  from write_not_connected_emits_nothing [OF closed] show ?thesis
    by blast
qed

end
